theory Spec2Isabelle
  imports Complex_Main
begin

section \<open>Batch-size and bucket constraints of the Lhotse dataloader\<close>

text \<open>
  A shallow embedding of the sampling constraints defined in
  \<^verbatim>\<open>nemo/collections/common/data/lhotse/dataloader.py\<close>:
  \<^verbatim>\<open>MultimodalSamplingConstraint\<close>, \<^verbatim>\<open>FixedBucketBatchSizeConstraint2D\<close>,
  \<^verbatim>\<open>MultimodalFixedBucketBatchSizeConstraint2D\<close> and the helper
  \<^verbatim>\<open>_measure_tokens\<close>.

  Python numbers (\<^verbatim>\<open>int\<close> and \<^verbatim>\<open>float\<close>) are modelled by \<^typ>\<open>real\<close>: comparisons are
  the ones of the numbers, and \<^verbatim>\<open>/\<close> is the exact quotient (rounding and the special
  float values are left out). Every exception the Python code can raise is a value of
  the type \<open>error\<close>, and a function that can raise returns \<open>error + 'a\<close>.
\<close>

subsection \<open>Exceptions\<close>

datatype error =
    IndexError
  | TypeError
  | ValueError
  | AttributeError
  | ZeroDivisionError
  | AssertionError string
  | RuntimeError string

subsection \<open>Examples\<close>

text \<open>
  The examples are objects of the Lhotse library. The model keeps the attributes the
  constraints read or write. An attribute that an object may lack (\<^verbatim>\<open>hasattr\<close> is false)
  is an \<open>option\<close>.
\<close>

record supervision =
  sup_text :: string
  tokens :: "nat list option"

record cut =
  cut_id :: string
  duration :: real
  supervisions :: "supervision list"
  tokenized_prompted_transcript :: "nat list option"
  cut_num_tokens :: "real option"

record text_example =
  example_text :: string
  num_tokens :: nat

record other_example =
  type_name :: string
  other_duration :: "real option"
  other_num_tokens :: "real option"

datatype example =
    Cut cut
  | TextExample text_example
  | TextPairExample text_example
  | Other other_example

text \<open>\<^verbatim>\<open>None\<close>, the default of the \<^verbatim>\<open>example\<close> argument of \<^verbatim>\<open>select_bucket\<close>.\<close>

definition none_example :: example where
  "none_example = Other \<lparr>type_name = ''NoneType'', other_duration = None, other_num_tokens = None\<rparr>"

text \<open>\<^verbatim>\<open>isinstance(example, Cut)\<close> and \<^verbatim>\<open>isinstance(example, (TextExample, TextPairExample))\<close>.\<close>

fun is_cut :: "example \<Rightarrow> bool" where
  "is_cut (Cut c) = True"
| "is_cut ex = False"

fun is_text :: "example \<Rightarrow> bool" where
  "is_text (TextExample t) = True"
| "is_text (TextPairExample t) = True"
| "is_text ex = False"

text \<open>\<^verbatim>\<open>type(example)\<close>, as the error messages print it.\<close>

fun type_of :: "example \<Rightarrow> string" where
  "type_of (Cut c) = ''Cut''"
| "type_of (TextExample t) = ''TextExample''"
| "type_of (TextPairExample t) = ''TextPairExample''"
| "type_of (Other ob) = type_name ob"

text \<open>The attribute reads \<^verbatim>\<open>example.duration\<close> and \<^verbatim>\<open>example.num_tokens\<close>.\<close>

fun get_duration :: "example \<Rightarrow> error + real" where
  "get_duration (Cut c) = Inr (duration c)"
| "get_duration (TextExample t) = Inl AttributeError"
| "get_duration (TextPairExample t) = Inl AttributeError"
| "get_duration (Other ob) =
     (case other_duration ob of None \<Rightarrow> Inl AttributeError | Some d \<Rightarrow> Inr d)"

fun hasattr_num_tokens :: "example \<Rightarrow> bool" where
  "hasattr_num_tokens (Cut c) = (cut_num_tokens c \<noteq> None)"
| "hasattr_num_tokens (TextExample t) = True"
| "hasattr_num_tokens (TextPairExample t) = True"
| "hasattr_num_tokens (Other ob) = (other_num_tokens ob \<noteq> None)"

fun get_num_tokens :: "example \<Rightarrow> error + real" where
  "get_num_tokens (Cut c) =
     (case cut_num_tokens c of None \<Rightarrow> Inl AttributeError | Some n \<Rightarrow> Inr n)"
| "get_num_tokens (TextExample t) = Inr (real (num_tokens t))"
| "get_num_tokens (TextPairExample t) = Inr (real (num_tokens t))"
| "get_num_tokens (Other ob) =
     (case other_num_tokens ob of None \<Rightarrow> Inl AttributeError | Some n \<Rightarrow> Inr n)"

text \<open>Python's \<^verbatim>\<open>x / y\<close> on numbers.\<close>

definition truediv :: "real \<Rightarrow> real \<Rightarrow> error + real" where
  "truediv x y = (if y = 0 then Inl ZeroDivisionError else Inr (x / y))"

subsection \<open>Lengths and bucket boundaries\<close>

text \<open>
  A measured length, and an entry of a bucket boundary table, is a number or a sequence
  of numbers (a pair, when 2D bucketing is in use).
\<close>

datatype length = Scalar real | Tuple "real list"

text \<open>Python compares sequences lexicographically; a number and a sequence do not compare.\<close>

fun seq_lt :: "real list \<Rightarrow> real list \<Rightarrow> bool" where
  "seq_lt [] [] = False"
| "seq_lt [] (y # ys) = True"
| "seq_lt (x # xs) [] = False"
| "seq_lt (x # xs) (y # ys) = (if x = y then seq_lt xs ys else x < y)"

fun py_lt :: "length \<Rightarrow> length \<Rightarrow> error + bool" where
  "py_lt (Scalar x) (Scalar y) = Inr (x < y)"
| "py_lt (Tuple xs) (Tuple ys) = Inr (seq_lt xs ys)"
| "py_lt (Scalar x) (Tuple ys) = Inl TypeError"
| "py_lt (Tuple xs) (Scalar y) = Inl TypeError"

text \<open>\<^verbatim>\<open>xs[i]\<close> on a list, for an index that is not negative.\<close>

definition getitem :: "'a list \<Rightarrow> nat \<Rightarrow> error + 'a" where
  "getitem xs i = (if i < length xs then Inr (xs ! i) else Inl IndexError)"

text \<open>\<^verbatim>\<open>b[i]\<close> on a table entry or a length.\<close>

fun subscript :: "length \<Rightarrow> nat \<Rightarrow> error + real" where
  "subscript (Scalar x) i = Inl TypeError"
| "subscript (Tuple xs) i = getitem xs i"

text \<open>The unpacking \<^verbatim>\<open>bin_dim0, bin_dim1 = b\<close>.\<close>

fun unpack2 :: "length \<Rightarrow> error + real \<times> real" where
  "unpack2 (Scalar x) = Inl TypeError"
| "unpack2 (Tuple [a, b]) = Inr (a, b)"
| "unpack2 (Tuple xs) = Inl ValueError"

subsection \<open>\<^verbatim>\<open>bisect.bisect_right\<close>\<close>

text \<open>
  The standard library's binary search:
  \<^verbatim>\<open>
  def bisect_right(a, x, lo=0, hi=None):
      if hi is None: hi = len(a)
      while lo < hi:
          mid = (lo + hi) // 2
          if x < a[mid]: hi = mid
          else: lo = mid + 1
      return lo
  \<close>
\<close>

function bisect_right_loop :: "length list \<Rightarrow> length \<Rightarrow> nat \<Rightarrow> nat \<Rightarrow> error + nat" where
  "bisect_right_loop a x lo hi =
     (if lo < hi then
        (case getitem a ((lo + hi) div 2) of
           Inl e \<Rightarrow> Inl e
         | Inr b \<Rightarrow>
            (case py_lt x b of
               Inl e \<Rightarrow> Inl e
             | Inr lt \<Rightarrow>
                if lt then bisect_right_loop a x lo ((lo + hi) div 2)
                else bisect_right_loop a x ((lo + hi) div 2 + 1) hi))
      else Inr lo)"
  by pat_completeness auto
termination
  by (relation "measure (\<lambda>(a, x, lo, hi). hi - lo)") auto

declare bisect_right_loop.simps [simp del]

definition bisect_right :: "length list \<Rightarrow> length \<Rightarrow> error + nat" where
  "bisect_right a x = bisect_right_loop a x 0 (length a)"

subsection \<open>The fixed-bucket policy of the sampling library\<close>

text \<open>
  \<^verbatim>\<open>FixedBucketBatchSizeConstraint\<close> is the base class of the repository's bucket
  constraints. Its two fields are the boundary table and the batch size of each bucket.
\<close>

record FixedBucketBatchSizeConstraint =
  max_seq_len_buckets :: "length list"
  batch_sizes :: "int list"

text \<open>
  Modelled from the spec: the plain 1D fixed-bucket policy is a class of the sampling
  library, imported by the repository and not part of its sources. Section 4.1: for an
  audio segment in 1D the length is the duration in seconds.
\<close>

definition FixedBucketBatchSizeConstraint_measure_length :: "example \<Rightarrow> error + length" where
  "FixedBucketBatchSizeConstraint_measure_length ex =
     (case get_duration ex of Inl e \<Rightarrow> Inl e | Inr d \<Rightarrow> Inr (Scalar d))"

text \<open>
  Modelled from the spec: the 1D \<^verbatim>\<open>select_bucket\<close> of the sampling library (section 4.3):
  the standard binary search for the index with
  \<^verbatim>\<open>boundaries[index-1] <= length < boundaries[index]\<close>, on the given length or, when none
  is given, on the measured length of the example. The first argument is the
  \<^verbatim>\<open>measure_length\<close> of the object the method is called on.
\<close>

definition FixedBucketBatchSizeConstraint_select_bucket ::
  "(example \<Rightarrow> error + length) \<Rightarrow> length list \<Rightarrow> example \<Rightarrow> length option \<Rightarrow> error + nat" where
  "FixedBucketBatchSizeConstraint_select_bucket self_measure_length buckets ex example_len =
     (case example_len of
        Some l \<Rightarrow> bisect_right buckets l
      | None \<Rightarrow>
         (case self_measure_length ex of
            Inl e \<Rightarrow> Inl e
          | Inr l \<Rightarrow> bisect_right buckets l))"

subsection \<open>\<^verbatim>\<open>_measure_tokens\<close>\<close>

text \<open>
  \<^verbatim>\<open>
  def _measure_tokens(cut: Cut) -> int:
      if hasattr(cut, "tokenized_prompted_transcript"):
          return len(cut.tokenized_prompted_transcript)
      supervisions_with_tokens = [s for s in cut.supervisions if hasattr(s, "tokens")]
      assert len(supervisions_with_tokens) > 0, (...)
      return sum(len(s.tokens) for s in supervisions_with_tokens)
  \<close>
  Only a cut has the two attributes read here.
\<close>

definition len_tokens :: "supervision \<Rightarrow> nat" where
  "len_tokens s = (case tokens s of None \<Rightarrow> 0 | Some ts \<Rightarrow> length ts)"

fun measure_tokens :: "example \<Rightarrow> error + nat" where
  "measure_tokens (Cut c) =
     (case tokenized_prompted_transcript c of
        Some ts \<Rightarrow> Inr (length ts)
      | None \<Rightarrow>
         (if 0 < length (filter (\<lambda>s. tokens s \<noteq> None) (supervisions c))
          then Inr (sum_list (map len_tokens (filter (\<lambda>s. tokens s \<noteq> None) (supervisions c))))
          else Inl (AssertionError ''Cannot measure tokens-per-second with untokenized supervisions. Did you forget to provide the tokenizer argument to get_lhotse_dataloader_from_config() method?'')))"
| "measure_tokens ex = Inl AttributeError"

subsection \<open>\<^verbatim>\<open>FixedBucketBatchSizeConstraint2D\<close>\<close>

text \<open>
  \<^verbatim>\<open>
  @property
  def bucketing_2d_enabled(self) -> bool:
      return isinstance(self.max_seq_len_buckets[0], Sequence) and len(self.max_seq_len_buckets[0]) == 2
  \<close>
\<close>

fun is_pair :: "length \<Rightarrow> bool" where
  "is_pair (Scalar x) = False"
| "is_pair (Tuple xs) = (length xs = 2)"

definition bucketing_2d_enabled :: "'a FixedBucketBatchSizeConstraint_scheme \<Rightarrow> error + bool" where
  "bucketing_2d_enabled self =
     (case getitem (max_seq_len_buckets self) 0 of
        Inl e \<Rightarrow> Inl e
      | Inr b \<Rightarrow> Inr (is_pair b))"

text \<open>
  \<^verbatim>\<open>
  def measure_length(self, example: Any) -> tuple[float, float]:
      if self.bucketing_2d_enabled:
          return example.duration, _measure_tokens(example)
      else:
          return example.duration
  \<close>
\<close>

definition FixedBucketBatchSizeConstraint2D_measure_length ::
  "'a FixedBucketBatchSizeConstraint_scheme \<Rightarrow> example \<Rightarrow> error + length" where
  "FixedBucketBatchSizeConstraint2D_measure_length self ex =
     (case bucketing_2d_enabled self of
        Inl e \<Rightarrow> Inl e
      | Inr enabled \<Rightarrow>
         if enabled then
           (case get_duration ex of
              Inl e \<Rightarrow> Inl e
            | Inr d \<Rightarrow>
               (case measure_tokens ex of
                  Inl e \<Rightarrow> Inl e
                | Inr n \<Rightarrow> Inr (Tuple [d, real n])))
         else
           (case get_duration ex of Inl e \<Rightarrow> Inl e | Inr d \<Rightarrow> Inr (Scalar d)))"

text \<open>
  The refinement loop of \<^verbatim>\<open>select_bucket\<close>:
  \<^verbatim>\<open>
  while (
      (next_idx := bucket_idx + 1) < num_buckets
      and (bin := self.max_seq_len_buckets[next_idx])[0] == bin_dim0
      and (bin_dim1 < example_len[1] <= bin[1] or bin[1] < example_len[1])
  ):
      bucket_idx = next_idx
      bin_dim0, bin_dim1 = self.max_seq_len_buckets[bucket_idx]
  return bucket_idx
  \<close>
\<close>

function refine_bucket_idx ::
  "length list \<Rightarrow> length \<Rightarrow> nat \<Rightarrow> real \<Rightarrow> real \<Rightarrow> error + nat" where
  "refine_bucket_idx table example_len bucket_idx bin_dim0 bin_dim1 =
     (if bucket_idx + 1 < length table then
        (case subscript (table ! (bucket_idx + 1)) 0 of
           Inl e \<Rightarrow> Inl e
         | Inr next_dim0 \<Rightarrow>
            if next_dim0 = bin_dim0 then
              (case subscript example_len 1 of
                 Inl e \<Rightarrow> Inl e
               | Inr len1 \<Rightarrow>
                  (case subscript (table ! (bucket_idx + 1)) 1 of
                     Inl e \<Rightarrow> Inl e
                   | Inr next_dim1 \<Rightarrow>
                      if (bin_dim1 < len1 \<and> len1 \<le> next_dim1) \<or> next_dim1 < len1 then
                        (case unpack2 (table ! (bucket_idx + 1)) of
                           Inl e \<Rightarrow> Inl e
                         | Inr (d0, d1) \<Rightarrow>
                            refine_bucket_idx table example_len (bucket_idx + 1) d0 d1)
                      else Inr bucket_idx))
            else Inr bucket_idx)
      else Inr bucket_idx)"
  by pat_completeness auto
termination
  by (relation "measure (\<lambda>(table, example_len, bucket_idx, bin_dim0, bin_dim1).
        length table - bucket_idx)") auto

declare refine_bucket_idx.simps [simp del]

text \<open>
  \<^verbatim>\<open>
  def select_bucket(self, buckets, example=None, example_len=None) -> int:
      if not self.bucketing_2d_enabled:
          return super().select_bucket(buckets=buckets, example=example, example_len=example_len)
      if example_len is None:
          example_len = self.measure_length(example)
      bucket_idx = bisect.bisect_right(buckets, example_len)
      bin_dim0, bin_dim1 = self.max_seq_len_buckets[bucket_idx]
      num_buckets = len(self.max_seq_len_buckets)
      while ...
  \<close>
  The method calls \<^verbatim>\<open>self.measure_length\<close>, which a subclass overrides: the body takes
  it as its first argument.
\<close>

definition select_bucket_body ::
  "(example \<Rightarrow> error + length) \<Rightarrow> 'a FixedBucketBatchSizeConstraint_scheme \<Rightarrow>
   length list \<Rightarrow> example \<Rightarrow> length option \<Rightarrow> error + nat" where
  "select_bucket_body self_measure_length self buckets ex example_len =
     (case bucketing_2d_enabled self of
        Inl e \<Rightarrow> Inl e
      | Inr enabled \<Rightarrow>
         if \<not> enabled then
           FixedBucketBatchSizeConstraint_select_bucket self_measure_length buckets ex example_len
         else
           (case (case example_len of None \<Rightarrow> self_measure_length ex | Some l \<Rightarrow> Inr l) of
              Inl e \<Rightarrow> Inl e
            | Inr l \<Rightarrow>
               (case bisect_right buckets l of
                  Inl e \<Rightarrow> Inl e
                | Inr bucket_idx \<Rightarrow>
                   (case getitem (max_seq_len_buckets self) bucket_idx of
                      Inl e \<Rightarrow> Inl e
                    | Inr b \<Rightarrow>
                       (case unpack2 b of
                          Inl e \<Rightarrow> Inl e
                        | Inr (bin_dim0, bin_dim1) \<Rightarrow>
                           refine_bucket_idx (max_seq_len_buckets self) l bucket_idx
                             bin_dim0 bin_dim1)))))"

definition select_bucket ::
  "FixedBucketBatchSizeConstraint \<Rightarrow> length list \<Rightarrow> example \<Rightarrow> length option \<Rightarrow> error + nat" where
  "select_bucket self buckets ex example_len =
     select_bucket_body (FixedBucketBatchSizeConstraint2D_measure_length self) self
       buckets ex example_len"

text \<open>
  Modelled from the spec: the lookup of the batch budget is done by the sampler of the
  library, which is not part of the sources. Section 4.4: the effective per-example
  batch budget is \<^verbatim>\<open>batch_sizes[select_bucket(measure_length(example))]\<close>. Section 3: N
  boundaries define N+1 buckets, and there are as many batch sizes as boundaries.
  Section 8: an example beyond the last boundary, whose bucket index is the number of
  boundaries, gets the last entry of the batch sizes. The lookup therefore reads the
  entry at the bucket index, and the last entry for an index past the end.
\<close>

definition batch_budget :: "FixedBucketBatchSizeConstraint \<Rightarrow> example \<Rightarrow> error + int" where
  "batch_budget self ex =
     (case FixedBucketBatchSizeConstraint2D_measure_length self ex of
        Inl e \<Rightarrow> Inl e
      | Inr l \<Rightarrow>
         (case select_bucket self (max_seq_len_buckets self) none_example (Some l) of
            Inl e \<Rightarrow> Inl e
          | Inr bucket_idx \<Rightarrow>
             getitem (batch_sizes self) (min bucket_idx (length (batch_sizes self) - 1))))"

subsection \<open>\<^verbatim>\<open>MultimodalFixedBucketBatchSizeConstraint2D\<close>\<close>

record MultimodalFixedBucketBatchSizeConstraint2D = FixedBucketBatchSizeConstraint +
  opt_token_equivalent_duration :: "real option"

text \<open>
  \<^verbatim>\<open>
  def measure_length(self, example: Any) -> float:
      assert not self.bucketing_2d_enabled, "2D bucketing for multimodal sampling is not yet supported."
      if hasattr(example, "num_tokens"):
          return example.num_tokens
      if isinstance(example, Cut):
          assert (
              self.token_equivalent_duration is not None
          ), "Cannot use MultimodalFixedBucketBatchSizeConstraint with speech data when token_equivalent_duration was not specified."
          return example.duration / self.token_equivalent_duration
      raise RuntimeError(f"Unsupported example type: {type(example)}")
  \<close>
\<close>

definition MultimodalFixedBucketBatchSizeConstraint2D_measure_length ::
  "MultimodalFixedBucketBatchSizeConstraint2D \<Rightarrow> example \<Rightarrow> error + length" where
  "MultimodalFixedBucketBatchSizeConstraint2D_measure_length self ex =
     (case bucketing_2d_enabled self of
        Inl e \<Rightarrow> Inl e
      | Inr enabled \<Rightarrow>
         if enabled then
           Inl (AssertionError ''2D bucketing for multimodal sampling is not yet supported.'')
         else if hasattr_num_tokens ex then
           (case get_num_tokens ex of Inl e \<Rightarrow> Inl e | Inr n \<Rightarrow> Inr (Scalar n))
         else if is_cut ex then
           (case opt_token_equivalent_duration self of
              None \<Rightarrow> Inl (AssertionError ''Cannot use MultimodalFixedBucketBatchSizeConstraint with speech data when token_equivalent_duration was not specified.'')
            | Some ted \<Rightarrow>
               (case get_duration ex of
                  Inl e \<Rightarrow> Inl e
                | Inr d \<Rightarrow>
                   (case truediv d ted of Inl e \<Rightarrow> Inl e | Inr q \<Rightarrow> Inr (Scalar q))))
         else Inl (RuntimeError (''Unsupported example type: '' @ type_of ex)))"

text \<open>The class inherits \<^verbatim>\<open>select_bucket\<close>, which then calls the method above.\<close>

definition MultimodalFixedBucketBatchSizeConstraint2D_select_bucket ::
  "MultimodalFixedBucketBatchSizeConstraint2D \<Rightarrow> length list \<Rightarrow> example \<Rightarrow> length option \<Rightarrow>
   error + nat" where
  "MultimodalFixedBucketBatchSizeConstraint2D_select_bucket self buckets ex example_len =
     select_bucket_body (MultimodalFixedBucketBatchSizeConstraint2D_measure_length self) self
       buckets ex example_len"

subsection \<open>The token constraint of the sampling library\<close>

text \<open>
  Modelled from the spec: \<^verbatim>\<open>TokenConstraint\<close> is a class of the sampling library,
  imported by the repository and not part of its sources. Section 4.2: the state is the
  running total length, the running example count, a configured upper bound on each and
  an optional quadratic penalty factor.
\<close>

record TokenConstraint =
  max_tokens :: "int option"
  max_examples :: "int option"
  quadratic_length :: "real option"
  current :: real
  num_examples :: int

text \<open>
  Modelled from the spec: the quadratic penalty of the library's token constraint
  (section 4.2): when a factor is configured, the cost of an example is inflated by
  \<^verbatim>\<open>length^2 / quadratic_factor\<close>.
\<close>

definition quadratic_correction :: "real option \<Rightarrow> real \<Rightarrow> error + real" where
  "quadratic_correction factor len =
     (case factor of
        None \<Rightarrow> Inr len
      | Some q \<Rightarrow>
         (case truediv (len ^ 2) q of Inl e \<Rightarrow> Inl e | Inr p \<Rightarrow> Inr (len + p)))"

text \<open>
  Modelled from the spec: \<^verbatim>\<open>add\<close> of the library's token constraint (section 4.2)
  measures the example's length (its token count), adds it to the running total,
  applying the quadratic penalty if configured, and increments the count.
\<close>

definition TokenConstraint_add :: "TokenConstraint \<Rightarrow> example \<Rightarrow> error + TokenConstraint" where
  "TokenConstraint_add self ex =
     (case get_num_tokens ex of
        Inl e \<Rightarrow> Inl e
      | Inr n \<Rightarrow>
         (case quadratic_correction (quadratic_length self) n of
            Inl e \<Rightarrow> Inl e
          | Inr len \<Rightarrow>
             Inr (self\<lparr>current := current self + len, num_examples := num_examples self + 1\<rparr>)))"

text \<open>
  Modelled from the spec: \<^verbatim>\<open>exceeded\<close> of the library's token constraint (section 4.2)
  is true if the running total length exceeds the configured maximum, or the running
  count exceeds the configured maximum example count. A bound that is \<^verbatim>\<open>None\<close> is not
  configured.
\<close>

definition TokenConstraint_exceeded :: "TokenConstraint \<Rightarrow> bool" where
  "TokenConstraint_exceeded self =
     ((case max_tokens self of None \<Rightarrow> False | Some m \<Rightarrow> real_of_int m < current self) \<or>
      (case max_examples self of None \<Rightarrow> False | Some m \<Rightarrow> m < num_examples self))"

text \<open>
  Modelled from the spec: \<^verbatim>\<open>reset\<close> of the library's token constraint (section 4.2)
  zeroes all running totals.
\<close>

definition TokenConstraint_reset :: "TokenConstraint \<Rightarrow> TokenConstraint" where
  "TokenConstraint_reset self = self\<lparr>current := 0, num_examples := 0\<rparr>"

subsection \<open>\<^verbatim>\<open>MultimodalSamplingConstraint\<close>\<close>

record MultimodalSamplingConstraint =
  token_equivalent_duration :: real
  batch_size :: "int option"
  batch_tokens :: "int option"
  quadratic_factor :: "real option"
  internal :: TokenConstraint

text \<open>
  The constructor of the dataclass, with
  \<^verbatim>\<open>
  def __post_init__(self):
      self._internal = TokenConstraint(
          max_tokens=self.batch_tokens,
          max_examples=self.batch_size,
          quadratic_length=self.quadratic_factor,
      )
  \<close>
  A new token constraint has counted nothing.
\<close>

definition MultimodalSamplingConstraint_init ::
  "real \<Rightarrow> int option \<Rightarrow> int option \<Rightarrow> real option \<Rightarrow> MultimodalSamplingConstraint" where
  "MultimodalSamplingConstraint_init ted bs bt qf =
     \<lparr>token_equivalent_duration = ted, batch_size = bs, batch_tokens = bt,
      quadratic_factor = qf,
      internal = \<lparr>max_tokens = bt, max_examples = bs, quadratic_length = qf,
                  current = 0, num_examples = 0\<rparr>\<rparr>"

text \<open>
  \<^verbatim>\<open>
  def measure_length(self, example: Any) -> float:
      if isinstance(example, Cut):
          return example.duration / self.token_equivalent_duration
      if isinstance(example, (TextExample, TextPairExample)):
          return example.num_tokens
      raise RuntimeError(f"Unsupported example type: {type(example)}")
  \<close>
\<close>

fun MultimodalSamplingConstraint_measure_length ::
  "MultimodalSamplingConstraint \<Rightarrow> example \<Rightarrow> error + real" where
  "MultimodalSamplingConstraint_measure_length self (Cut c) =
     truediv (duration c) (token_equivalent_duration self)"
| "MultimodalSamplingConstraint_measure_length self (TextExample t) = Inr (real (num_tokens t))"
| "MultimodalSamplingConstraint_measure_length self (TextPairExample t) = Inr (real (num_tokens t))"
| "MultimodalSamplingConstraint_measure_length self (Other ob) =
     Inl (RuntimeError (''Unsupported example type: '' @ type_name ob))"

text \<open>
  \<^verbatim>\<open>
  def add(self, example: Any) -> None:
      if isinstance(example, Cut):
          num_tokens = self.measure_length(example)
          example.num_tokens = num_tokens
      self._internal.add(example)
  \<close>
  The method mutates the example and the constraint, and it can raise after it has
  written the example: the model returns the exception, if any, with the example and the
  constraint as the call leaves them.
\<close>

definition internal_add ::
  "MultimodalSamplingConstraint \<Rightarrow> example \<Rightarrow>
   error option \<times> example \<times> MultimodalSamplingConstraint" where
  "internal_add self ex =
     (case TokenConstraint_add (internal self) ex of
        Inl e \<Rightarrow> (Some e, ex, self)
      | Inr tc \<Rightarrow> (None, ex, self\<lparr>internal := tc\<rparr>))"

fun MultimodalSamplingConstraint_add ::
  "MultimodalSamplingConstraint \<Rightarrow> example \<Rightarrow>
   error option \<times> example \<times> MultimodalSamplingConstraint" where
  "MultimodalSamplingConstraint_add self (Cut c) =
     (case MultimodalSamplingConstraint_measure_length self (Cut c) of
        Inl e \<Rightarrow> (Some e, Cut c, self)
      | Inr n \<Rightarrow> internal_add self (Cut (c\<lparr>cut_num_tokens := Some n\<rparr>)))"
| "MultimodalSamplingConstraint_add self ex = internal_add self ex"

text \<open>
  \<^verbatim>\<open>
  def exceeded(self) -> bool:
      return self._internal.exceeded()

  def reset(self) -> None:
      self._internal.reset()
  \<close>
\<close>

definition MultimodalSamplingConstraint_exceeded :: "MultimodalSamplingConstraint \<Rightarrow> bool" where
  "MultimodalSamplingConstraint_exceeded self = TokenConstraint_exceeded (internal self)"

definition MultimodalSamplingConstraint_reset ::
  "MultimodalSamplingConstraint \<Rightarrow> MultimodalSamplingConstraint" where
  "MultimodalSamplingConstraint_reset self = self\<lparr>internal := TokenConstraint_reset (internal self)\<rparr>"

text \<open>
  A sequence of \<^verbatim>\<open>add\<close> calls, as the sampler makes them while it builds a batch: the
  first exception ends the sequence.
\<close>

fun add_all ::
  "MultimodalSamplingConstraint \<Rightarrow> example list \<Rightarrow>
   error option \<times> example list \<times> MultimodalSamplingConstraint" where
  "add_all self [] = (None, [], self)"
| "add_all self (ex # exs) =
     (case MultimodalSamplingConstraint_add self ex of
        (Some e, ex', self') \<Rightarrow> (Some e, ex' # exs, self')
      | (None, ex', self') \<Rightarrow>
         (case add_all self' exs of (r, exs', self'') \<Rightarrow> (r, ex' # exs', self'')))"

subsection \<open>The 2D bucket assignment as the specification words it\<close>

text \<open>
  Section 4.3 describes the refinement loop in these words: while a next bucket exists,
  shares the same first-dimension boundary as the current bucket, and either (a) the
  example's second dimension falls strictly between the current and next bucket's
  second-dimension boundary, or (b) the example's second dimension still exceeds the next
  bucket's second-dimension boundary, advance to the next bucket. The definition below
  follows these words on a table of pairs, to be compared with \<open>select_bucket\<close>.
\<close>

definition pair_entry :: "real \<times> real \<Rightarrow> length" where
  "pair_entry p = Tuple [fst p, snd p]"

function advance_as_specified :: "(real \<times> real) list \<Rightarrow> real \<Rightarrow> nat \<Rightarrow> nat" where
  "advance_as_specified table len1 idx =
     (if idx + 1 < length table \<and>
         fst (table ! (idx + 1)) = fst (table ! idx) \<and>
         ((snd (table ! idx) < len1 \<and> len1 < snd (table ! (idx + 1))) \<or>
          snd (table ! (idx + 1)) < len1)
      then advance_as_specified table len1 (idx + 1)
      else idx)"
  by pat_completeness auto
termination
  by (relation "measure (\<lambda>(table, len1, idx). length table - idx)") auto

declare advance_as_specified.simps [simp del]

definition select_bucket_as_specified :: "(real \<times> real) list \<Rightarrow> real \<times> real \<Rightarrow> error + nat" where
  "select_bucket_as_specified table example_len =
     (case bisect_right (map pair_entry table) (pair_entry example_len) of
        Inl e \<Rightarrow> Inl e
      | Inr idx \<Rightarrow> Inr (advance_as_specified table (snd example_len) idx))"

subsection \<open>Notions used by the properties\<close>

text \<open>The lexicographic order of pairs, in which a 2D boundary table is sorted.\<close>

definition pair_le :: "real \<times> real \<Rightarrow> real \<times> real \<Rightarrow> bool" where
  "pair_le p q = (fst p < fst q \<or> (fst p = fst q \<and> snd p \<le> snd q))"

text \<open>
  A bucket of a 2D table contains an example when the example's first dimension is below
  the bucket's first boundary and its second dimension is at most the second boundary.
\<close>

definition contains :: "real \<times> real \<Rightarrow> real \<times> real \<Rightarrow> bool" where
  "contains bucket example_len = (fst example_len < fst bucket \<and> snd example_len \<le> snd bucket)"

text \<open>
  The guard of the refinement loop at the bucket \<open>m\<close> of a table of pairs, for an example
  whose second dimension is \<open>len1\<close>: a next bucket exists, it has the same first
  dimension, and \<open>len1\<close> is above the second dimension of the bucket \<open>m\<close> and at most the
  one of the next bucket, or above the one of the next bucket.
\<close>

definition advances :: "(real \<times> real) list \<Rightarrow> real \<Rightarrow> nat \<Rightarrow> bool" where
  "advances ps len1 m =
     (m + 1 < length ps \<and> fst (ps ! (m + 1)) = fst (ps ! m) \<and>
      ((snd (ps ! m) < len1 \<and> len1 \<le> snd (ps ! (m + 1))) \<or> snd (ps ! (m + 1)) < len1))"

text \<open>
  The internal token constraint carries the configuration of the multimodal constraint,
  as \<^verbatim>\<open>__post_init__\<close> leaves it.
\<close>

definition configured :: "MultimodalSamplingConstraint \<Rightarrow> bool" where
  "configured self =
     (max_tokens (internal self) = batch_tokens self \<and>
      max_examples (internal self) = batch_size self \<and>
      quadratic_length (internal self) = quadratic_factor self)"

text \<open>The length of an example with the quadratic penalty, for a factor that is not zero.\<close>

definition penalised :: "real option \<Rightarrow> real \<Rightarrow> real" where
  "penalised factor len = (case factor of None \<Rightarrow> len | Some q \<Rightarrow> len + len ^ 2 / q)"

section \<open>Properties\<close>

subsection \<open>Binary search\<close>

lemma bisect_right_loop_all_ge:
  "\<forall>b \<in> set a. py_lt x b = Inr False \<Longrightarrow> hi \<le> length a \<Longrightarrow> lo \<le> hi \<Longrightarrow>
   bisect_right_loop a x lo hi = Inr hi"
proof (induction a x lo hi rule: bisect_right_loop.induct)
  case (1 a x lo hi)
  show ?case
  proof (cases "lo < hi")
    case True
    let ?mid = "(lo + hi) div 2"
    have mid: "?mid < length a" "?mid + 1 \<le> hi" using True "1.prems" by auto
    then have lt: "py_lt x (a ! ?mid) = Inr False" using "1.prems"(1) by simp
    have "bisect_right_loop a x (?mid + 1) hi = Inr hi"
      using "1.IH"(2)[of "a ! ?mid" False] True mid lt "1.prems" by (simp add: getitem_def)
    then show ?thesis
      using True mid lt by (subst bisect_right_loop.simps) (simp add: getitem_def)
  next
    case False
    then show ?thesis using "1.prems" by (subst bisect_right_loop.simps) simp
  qed
qed

lemma seq_lt_asym: "seq_lt xs ys \<Longrightarrow> \<not> seq_lt ys xs"
  by (induction xs ys rule: seq_lt.induct) (auto split: if_splits)

lemma py_lt_asym: "py_lt b x = Inr True \<Longrightarrow> py_lt x b = Inr False"
  by (cases b; cases x) (auto dest: seq_lt_asym)

subsection \<open>The 2D bucket assignment\<close>

text \<open>
  Claim C2. For the 2D boundary table \<open>[(1,1),(1,2),(2,2),(2,4)]\<close> and an example of
  length \<open>(1.5, 3)\<close>, \<open>select_bucket\<close> of \<open>FixedBucketBatchSizeConstraint2D\<close> returns index
  3, and the binary search alone returns 2.
\<close>

theorem select_bucket_refines_bisect_example:
  "select_bucket
     \<lparr>max_seq_len_buckets = [Tuple [1, 1], Tuple [1, 2], Tuple [2, 2], Tuple [2, 4]],
      batch_sizes = bs\<rparr>
     [Tuple [1, 1], Tuple [1, 2], Tuple [2, 2], Tuple [2, 4]] ex (Some (Tuple [3 / 2, 3])) = Inr 3
   \<and> bisect_right [Tuple [1, 1], Tuple [1, 2], Tuple [2, 2], Tuple [2, 4]] (Tuple [3 / 2, 3]) = Inr 2"
  by (simp add: select_bucket_def select_bucket_body_def bucketing_2d_enabled_def getitem_def
      bisect_right_def bisect_right_loop.simps refine_bucket_idx.simps)

text \<open>
  Claim C9. With 2D bucketing enabled, if the example's length compares greater than
  every boundary of the table, the binary search returns the number of buckets and
  \<open>select_bucket\<close> returns no index: reading the boundary table at that position raises
  \<open>IndexError\<close>. The length is the one given or, when none is given, the measured one.
\<close>

theorem select_bucket_beyond_last_boundary:
  assumes "bucketing_2d_enabled self = Inr True"
    and "\<forall>b \<in> set (max_seq_len_buckets self). py_lt b l = Inr True"
    and "example_len = Some l \<or>
         (example_len = None \<and> FixedBucketBatchSizeConstraint2D_measure_length self ex = Inr l)"
  shows "bisect_right (max_seq_len_buckets self) l = Inr (length (max_seq_len_buckets self)) \<and>
         select_bucket self (max_seq_len_buckets self) ex example_len = Inl IndexError"
proof -
  have ge: "\<forall>b \<in> set (max_seq_len_buckets self). py_lt l b = Inr False"
    using assms(2) by (auto dest: py_lt_asym)
  have b: "bisect_right (max_seq_len_buckets self) l = Inr (length (max_seq_len_buckets self))"
    unfolding bisect_right_def using bisect_right_loop_all_ge[OF ge] by simp
  have "select_bucket self (max_seq_len_buckets self) ex example_len = Inl IndexError"
    using assms(1,3) b
    by (auto simp: select_bucket_def select_bucket_body_def getitem_def)
  with b show ?thesis by simp
qed

theorem select_bucket_beyond_last_boundary_witness:
  "bucketing_2d_enabled \<lparr>max_seq_len_buckets = [Tuple [1, 1], Tuple [1, 2]], batch_sizes = [8, 4]\<rparr>
     = Inr True
   \<and> py_lt (Tuple [1, 1]) (Tuple [3, 3]) = Inr True
   \<and> py_lt (Tuple [1, 2]) (Tuple [3, 3]) = Inr True
   \<and> bisect_right [Tuple [1, 1], Tuple [1, 2]] (Tuple [3, 3]) = Inr 2
   \<and> select_bucket \<lparr>max_seq_len_buckets = [Tuple [1, 1], Tuple [1, 2]], batch_sizes = [8, 4]\<rparr>
       [Tuple [1, 1], Tuple [1, 2]] none_example (Some (Tuple [3, 3])) = Inl IndexError"
  using select_bucket_beyond_last_boundary
    [of "\<lparr>max_seq_len_buckets = [Tuple [1, 1], Tuple [1, 2]], batch_sizes = [8, 4]\<rparr>"
        "Tuple [3, 3]" "Some (Tuple [3, 3])" none_example]
  by (simp add: bucketing_2d_enabled_def getitem_def)

subsection \<open>The 1D fixed-bucket policy\<close>

text \<open>
  Claim C3. A \<open>FixedBucketBatchSizeConstraint2D\<close> with the 1D boundaries
  \<open>[10.0, 20.0, 30.0]\<close> and the batch sizes \<open>[8, 4, 2]\<close>: an example of duration 15.0
  selects bucket index 1 and the batch budget 4; an example of duration 35.0 selects
  bucket index 3, beyond the last boundary, and the batch budget 2, the last entry; an
  example of duration 5.0 selects bucket index 0 and the batch budget 8.
\<close>

theorem fixed_bucket_scenario:
  "select_bucket \<lparr>max_seq_len_buckets = [Scalar 10, Scalar 20, Scalar 30], batch_sizes = [8, 4, 2]\<rparr>
     [Scalar 10, Scalar 20, Scalar 30] (Cut (c\<lparr>duration := 15\<rparr>)) None = Inr 1 \<and>
   batch_budget \<lparr>max_seq_len_buckets = [Scalar 10, Scalar 20, Scalar 30], batch_sizes = [8, 4, 2]\<rparr>
     (Cut (c\<lparr>duration := 15\<rparr>)) = Inr 4 \<and>
   select_bucket \<lparr>max_seq_len_buckets = [Scalar 10, Scalar 20, Scalar 30], batch_sizes = [8, 4, 2]\<rparr>
     [Scalar 10, Scalar 20, Scalar 30] (Cut (c\<lparr>duration := 35\<rparr>)) None = Inr 3 \<and>
   batch_budget \<lparr>max_seq_len_buckets = [Scalar 10, Scalar 20, Scalar 30], batch_sizes = [8, 4, 2]\<rparr>
     (Cut (c\<lparr>duration := 35\<rparr>)) = Inr 2 \<and>
   select_bucket \<lparr>max_seq_len_buckets = [Scalar 10, Scalar 20, Scalar 30], batch_sizes = [8, 4, 2]\<rparr>
     [Scalar 10, Scalar 20, Scalar 30] (Cut (c\<lparr>duration := 5\<rparr>)) None = Inr 0 \<and>
   batch_budget \<lparr>max_seq_len_buckets = [Scalar 10, Scalar 20, Scalar 30], batch_sizes = [8, 4, 2]\<rparr>
     (Cut (c\<lparr>duration := 5\<rparr>)) = Inr 8"
  by (simp add: select_bucket_def select_bucket_body_def bucketing_2d_enabled_def getitem_def
      FixedBucketBatchSizeConstraint_select_bucket_def
      FixedBucketBatchSizeConstraint2D_measure_length_def batch_budget_def
      bisect_right_def bisect_right_loop.simps)

text \<open>
  Claim C4. For every \<open>FixedBucketBatchSizeConstraint2D\<close> whose boundary table is 1D
  (its first entry is not a pair, so that \<open>bucketing_2d_enabled\<close> is false),
  \<open>measure_length\<close> is the one of the plain 1D fixed-bucket policy and returns the
  example's duration, and \<open>select_bucket\<close> is the 1D \<open>select_bucket\<close>, for all buckets,
  examples and lengths.
\<close>

theorem one_dim_table_degrades_to_base_policy:
  assumes "max_seq_len_buckets self = b # rest" and "\<not> is_pair b"
  shows "bucketing_2d_enabled self = Inr False \<and>
    FixedBucketBatchSizeConstraint2D_measure_length self ex =
      FixedBucketBatchSizeConstraint_measure_length ex \<and>
    (\<forall>d. get_duration ex = Inr d \<longrightarrow>
       FixedBucketBatchSizeConstraint2D_measure_length self ex = Inr (Scalar d)) \<and>
    select_bucket self buckets ex example_len =
      FixedBucketBatchSizeConstraint_select_bucket FixedBucketBatchSizeConstraint_measure_length
        buckets ex example_len"
proof -
  have en: "bucketing_2d_enabled self = Inr False"
    using assms by (simp add: bucketing_2d_enabled_def getitem_def)
  have ml: "FixedBucketBatchSizeConstraint2D_measure_length self =
      FixedBucketBatchSizeConstraint_measure_length"
    using en by (auto simp: FixedBucketBatchSizeConstraint2D_measure_length_def
        FixedBucketBatchSizeConstraint_measure_length_def)
  show ?thesis
    using en ml
    by (simp add: select_bucket_def select_bucket_body_def
        FixedBucketBatchSizeConstraint_measure_length_def)
qed

theorem one_dim_table_degrades_to_base_policy_witness:
  "max_seq_len_buckets \<lparr>max_seq_len_buckets = [Scalar 10, Scalar 20, Scalar 30], batch_sizes = [8, 4, 2]\<rparr>
     = Scalar 10 # [Scalar 20, Scalar 30] \<and>
   \<not> is_pair (Scalar 10) \<and>
   FixedBucketBatchSizeConstraint2D_measure_length
     \<lparr>max_seq_len_buckets = [Scalar 10, Scalar 20, Scalar 30], batch_sizes = [8, 4, 2]\<rparr>
     (Cut \<lparr>cut_id = ''c'', duration = 15, supervisions = [], tokenized_prompted_transcript = None,
           cut_num_tokens = None\<rparr>) = Inr (Scalar 15) \<and>
   select_bucket \<lparr>max_seq_len_buckets = [Scalar 10, Scalar 20, Scalar 30], batch_sizes = [8, 4, 2]\<rparr>
     [Scalar 10, Scalar 20, Scalar 30]
     (Cut \<lparr>cut_id = ''c'', duration = 15, supervisions = [], tokenized_prompted_transcript = None,
           cut_num_tokens = None\<rparr>) None = Inr 1"
  using one_dim_table_degrades_to_base_policy
    [of "\<lparr>max_seq_len_buckets = [Scalar 10, Scalar 20, Scalar 30], batch_sizes = [8, 4, 2]\<rparr>"
        "Scalar 10" "[Scalar 20, Scalar 30]"
        "Cut \<lparr>cut_id = ''c'', duration = 15, supervisions = [], tokenized_prompted_transcript = None,
           cut_num_tokens = None\<rparr>"
        "[Scalar 10, Scalar 20, Scalar 30]" None]
  by (simp add: FixedBucketBatchSizeConstraint_select_bucket_def
      FixedBucketBatchSizeConstraint_measure_length_def bisect_right_def getitem_def
      bisect_right_loop.simps)

subsection \<open>Measuring lengths across modalities\<close>

text \<open>
  Claim C5. \<open>MultimodalSamplingConstraint.measure_length\<close> returns, for every text example
  (\<open>TextExample\<close> or \<open>TextPairExample\<close>), its token count; for every audio example (a
  \<open>Cut\<close>), the value of \<open>duration / token_equivalent_duration\<close>, which is the quotient when
  the divisor is not zero; and for an example of any other type it raises a
  \<open>RuntimeError\<close> that names the unsupported type.
\<close>

theorem multimodal_measure_length_by_type:
  "(is_text ex \<longrightarrow> MultimodalSamplingConstraint_measure_length self ex = get_num_tokens ex) \<and>
   MultimodalSamplingConstraint_measure_length self (TextExample t) = Inr (real (num_tokens t)) \<and>
   MultimodalSamplingConstraint_measure_length self (TextPairExample t) = Inr (real (num_tokens t)) \<and>
   MultimodalSamplingConstraint_measure_length self (Cut c) =
     truediv (duration c) (token_equivalent_duration self) \<and>
   (token_equivalent_duration self \<noteq> 0 \<longrightarrow>
      MultimodalSamplingConstraint_measure_length self (Cut c) =
        Inr (duration c / token_equivalent_duration self)) \<and>
   (\<not> is_cut ex \<and> \<not> is_text ex \<longrightarrow>
      MultimodalSamplingConstraint_measure_length self ex =
        Inl (RuntimeError (''Unsupported example type: '' @ type_of ex)))"
  by (cases ex) (simp_all add: truediv_def)

theorem multimodal_measure_length_by_type_witness:
  "is_text (TextExample \<lparr>example_text = ''hello'', num_tokens = 7\<rparr>) \<and>
   MultimodalSamplingConstraint_measure_length
     (MultimodalSamplingConstraint_init (1 / 2) None (Some 100) None)
     (TextExample \<lparr>example_text = ''hello'', num_tokens = 7\<rparr>) = Inr 7 \<and>
   token_equivalent_duration (MultimodalSamplingConstraint_init (1 / 2) None (Some 100) None) \<noteq> 0 \<and>
   MultimodalSamplingConstraint_measure_length
     (MultimodalSamplingConstraint_init (1 / 2) None (Some 100) None)
     (Cut \<lparr>cut_id = ''c'', duration = 3, supervisions = [], tokenized_prompted_transcript = None,
           cut_num_tokens = None\<rparr>) = Inr 6 \<and>
   \<not> is_cut none_example \<and> \<not> is_text none_example \<and>
   MultimodalSamplingConstraint_measure_length
     (MultimodalSamplingConstraint_init (1 / 2) None (Some 100) None) none_example =
     Inl (RuntimeError ''Unsupported example type: NoneType'')"
  using multimodal_measure_length_by_type
      [of "TextExample \<lparr>example_text = ''hello'', num_tokens = 7\<rparr>"
        "MultimodalSamplingConstraint_init (1 / 2) None (Some 100) None"
        "\<lparr>example_text = ''hello'', num_tokens = 7\<rparr>"
        "\<lparr>cut_id = ''c'', duration = 3, supervisions = [], tokenized_prompted_transcript = None,
           cut_num_tokens = None\<rparr>"]
    multimodal_measure_length_by_type
      [of none_example "MultimodalSamplingConstraint_init (1 / 2) None (Some 100) None"]
  by (simp add: MultimodalSamplingConstraint_init_def none_example_def)

text \<open>
  Claim C8. For every \<open>MultimodalFixedBucketBatchSizeConstraint2D\<close> with a 2D boundary
  table (\<open>bucketing_2d_enabled\<close> is true), \<open>measure_length\<close> fails with the assertion
  error "not yet supported", for every example.
\<close>

theorem multimodal_2d_bucketing_unsupported:
  "bucketing_2d_enabled self = Inr True \<Longrightarrow>
   MultimodalFixedBucketBatchSizeConstraint2D_measure_length self ex =
     Inl (AssertionError ''2D bucketing for multimodal sampling is not yet supported.'')"
  by (simp add: MultimodalFixedBucketBatchSizeConstraint2D_measure_length_def)

theorem multimodal_2d_bucketing_unsupported_witness:
  "bucketing_2d_enabled
     \<lparr>max_seq_len_buckets = [Tuple [1, 1], Tuple [1, 2]], batch_sizes = [8, 4],
      opt_token_equivalent_duration = Some (1 / 2)\<rparr> = Inr True \<and>
   MultimodalFixedBucketBatchSizeConstraint2D_measure_length
     \<lparr>max_seq_len_buckets = [Tuple [1, 1], Tuple [1, 2]], batch_sizes = [8, 4],
      opt_token_equivalent_duration = Some (1 / 2)\<rparr>
     (Cut \<lparr>cut_id = ''c'', duration = 3, supervisions = [], tokenized_prompted_transcript = None,
           cut_num_tokens = None\<rparr>) =
     Inl (AssertionError ''2D bucketing for multimodal sampling is not yet supported.'')"
  using multimodal_2d_bucketing_unsupported
    [of "\<lparr>max_seq_len_buckets = [Tuple [1, 1], Tuple [1, 2]], batch_sizes = [8, 4],
      opt_token_equivalent_duration = Some (1 / 2)\<rparr>"
      "Cut \<lparr>cut_id = ''c'', duration = 3, supervisions = [], tokenized_prompted_transcript = None,
           cut_num_tokens = None\<rparr>"]
  by (simp add: bucketing_2d_enabled_def getitem_def)

text \<open>
  Claim C10, as amended. When 2D bucketing is not enabled (the assertion at the head of
  the method passes), \<open>MultimodalFixedBucketBatchSizeConstraint2D.measure_length\<close> returns
  the example's \<open>num_tokens\<close> attribute whenever that attribute exists, for every example
  type; for an audio \<open>Cut\<close> that carries a cached \<open>num_tokens\<close> this holds whatever the
  duration and whether or not \<open>token_equivalent_duration\<close> is configured; and the
  unsupported-type error is raised exactly for the examples that are neither cuts nor
  carry \<open>num_tokens\<close>.
\<close>

theorem multimodal_bucket_measure_length_prefers_num_tokens:
  assumes "bucketing_2d_enabled self = Inr False"
  shows "(hasattr_num_tokens ex \<longrightarrow>
           (\<exists>n. get_num_tokens ex = Inr n \<and>
             MultimodalFixedBucketBatchSizeConstraint2D_measure_length self ex = Inr (Scalar n))) \<and>
         (MultimodalFixedBucketBatchSizeConstraint2D_measure_length self
            (Cut (c\<lparr>cut_num_tokens := Some k\<rparr>)) = Inr (Scalar k)) \<and>
         ((\<exists>msg. MultimodalFixedBucketBatchSizeConstraint2D_measure_length self ex =
              Inl (RuntimeError msg)) \<longleftrightarrow> (\<not> is_cut ex \<and> \<not> hasattr_num_tokens ex))"
  using assms
  by (cases ex)
     (auto simp: MultimodalFixedBucketBatchSizeConstraint2D_measure_length_def truediv_def
       split: option.splits sum.splits)

theorem multimodal_bucket_measure_length_prefers_num_tokens_witness:
  "bucketing_2d_enabled
     \<lparr>max_seq_len_buckets = [Scalar 10, Scalar 20], batch_sizes = [8, 4],
      opt_token_equivalent_duration = None\<rparr> = Inr False \<and>
   hasattr_num_tokens
     (Cut \<lparr>cut_id = ''c'', duration = 3, supervisions = [], tokenized_prompted_transcript = None,
           cut_num_tokens = Some 6\<rparr>) \<and>
   MultimodalFixedBucketBatchSizeConstraint2D_measure_length
     \<lparr>max_seq_len_buckets = [Scalar 10, Scalar 20], batch_sizes = [8, 4],
      opt_token_equivalent_duration = None\<rparr>
     (Cut \<lparr>cut_id = ''c'', duration = 3, supervisions = [], tokenized_prompted_transcript = None,
           cut_num_tokens = Some 6\<rparr>) = Inr (Scalar 6)"
  using multimodal_bucket_measure_length_prefers_num_tokens
    [of "\<lparr>max_seq_len_buckets = [Scalar 10, Scalar 20], batch_sizes = [8, 4],
      opt_token_equivalent_duration = None\<rparr>"
      "Cut \<lparr>cut_id = ''c'', duration = 3, supervisions = [], tokenized_prompted_transcript = None,
           cut_num_tokens = Some 6\<rparr>"]
  by (simp add: bucketing_2d_enabled_def getitem_def)

text \<open>
  Claim C10 as stated fails: with a 2D boundary table the method raises the assertion
  error for a text example, whose \<open>num_tokens\<close> attribute exists.
\<close>

theorem multimodal_bucket_measure_length_2d_table_raises:
  "hasattr_num_tokens (TextExample \<lparr>example_text = ''hello'', num_tokens = 7\<rparr>) \<and>
   get_num_tokens (TextExample \<lparr>example_text = ''hello'', num_tokens = 7\<rparr>) = Inr 7 \<and>
   MultimodalFixedBucketBatchSizeConstraint2D_measure_length
     \<lparr>max_seq_len_buckets = [Tuple [1, 1], Tuple [1, 2]], batch_sizes = [8, 4],
      opt_token_equivalent_duration = Some (1 / 2)\<rparr>
     (TextExample \<lparr>example_text = ''hello'', num_tokens = 7\<rparr>)
   = Inl (AssertionError ''2D bucketing for multimodal sampling is not yet supported.'')"
  by (simp add: MultimodalFixedBucketBatchSizeConstraint2D_measure_length_def
      bucketing_2d_enabled_def getitem_def)

subsection \<open>The multimodal sampling constraint\<close>

lemma TokenConstraint_add_frame:
  "TokenConstraint_add tc x = Inr tc' \<Longrightarrow>
   max_tokens tc' = max_tokens tc \<and> max_examples tc' = max_examples tc \<and>
   quadratic_length tc' = quadratic_length tc"
  by (auto simp: TokenConstraint_add_def split: sum.splits)

lemma internal_add_frame:
  assumes "internal_add self x = (r1, x1, s1)"
  shows "x1 = x \<and> token_equivalent_duration s1 = token_equivalent_duration self \<and>
     batch_size s1 = batch_size self \<and> batch_tokens s1 = batch_tokens self \<and>
     quadratic_factor s1 = quadratic_factor self \<and>
     max_tokens (internal s1) = max_tokens (internal self) \<and>
     max_examples (internal s1) = max_examples (internal self) \<and>
     quadratic_length (internal s1) = quadratic_length (internal self)"
proof (cases "TokenConstraint_add (internal self) x")
  case (Inl e)
  with assms show ?thesis by (simp add: internal_add_def)
next
  case (Inr tc)
  with assms TokenConstraint_add_frame[OF Inr] show ?thesis
    by (auto simp: internal_add_def)
qed

text \<open>
  Claim C7. \<open>MultimodalSamplingConstraint.add\<close>, given an audio example (a \<open>Cut\<close>), first
  computes the token-equivalent length with \<open>measure_length\<close> and stores it on the example
  as its \<open>num_tokens\<close> attribute, and then delegates to the internal token constraint,
  which receives the example with the stored value; no other attribute of the cut
  changes. For an example that is not a cut it delegates and leaves the example as it
  is. In every case, whether the call returns or raises, the fields of the constraint
  and the configuration of the internal constraint are unchanged: only the running
  totals of the internal constraint can differ.
\<close>

theorem multimodal_add_frame:
  assumes "MultimodalSamplingConstraint_add self ex = (r, ex', self')"
  shows "(\<forall>c n. ex = Cut c \<and> MultimodalSamplingConstraint_measure_length self ex = Inr n \<longrightarrow>
            ex' = Cut (c\<lparr>cut_num_tokens := Some n\<rparr>) \<and> (r, ex', self') = internal_add self ex') \<and>
         (\<forall>c. ex = Cut c \<longrightarrow> (\<exists>v. ex' = Cut (c\<lparr>cut_num_tokens := v\<rparr>))) \<and>
         (\<not> is_cut ex \<longrightarrow> ex' = ex \<and> (r, ex', self') = internal_add self ex) \<and>
         token_equivalent_duration self' = token_equivalent_duration self \<and>
         batch_size self' = batch_size self \<and> batch_tokens self' = batch_tokens self \<and>
         quadratic_factor self' = quadratic_factor self \<and>
         max_tokens (internal self') = max_tokens (internal self) \<and>
         max_examples (internal self') = max_examples (internal self) \<and>
         quadratic_length (internal self') = quadratic_length (internal self)"
proof (cases ex)
  case (Cut c)
  show ?thesis
  proof (cases "MultimodalSamplingConstraint_measure_length self (Cut c)")
    case (Inl e)
    with assms Cut have e: "ex' = Cut c" "self' = self" by auto
    have "Cut c = Cut (c\<lparr>cut_num_tokens := cut_num_tokens c\<rparr>)" by simp
    then have "\<exists>v. Cut c = Cut (c\<lparr>cut_num_tokens := v\<rparr>)" by (rule exI)
    with e Cut Inl show ?thesis by simp
  next
    case (Inr n)
    with assms Cut have a: "internal_add self (Cut (c\<lparr>cut_num_tokens := Some n\<rparr>)) = (r, ex', self')"
      by simp
    from internal_add_frame[OF a] have x: "ex' = Cut (c\<lparr>cut_num_tokens := Some n\<rparr>)" by simp
    then have "\<exists>v. ex' = Cut (c\<lparr>cut_num_tokens := v\<rparr>)" by (rule exI)
    with internal_add_frame[OF a] a x Cut Inr show ?thesis by simp
  qed
next
  case (TextExample t)
  with assms have a: "internal_add self ex = (r, ex', self')" by simp
  from internal_add_frame[OF a] a show ?thesis using TextExample by simp
next
  case (TextPairExample t)
  with assms have a: "internal_add self ex = (r, ex', self')" by simp
  from internal_add_frame[OF a] a show ?thesis using TextPairExample by simp
next
  case (Other ob)
  with assms have a: "internal_add self ex = (r, ex', self')" by simp
  from internal_add_frame[OF a] a show ?thesis using Other by simp
qed

theorem multimodal_add_frame_witness:
  "MultimodalSamplingConstraint_add (MultimodalSamplingConstraint_init (1 / 2) (Some 2) (Some 100) None)
     (Cut \<lparr>cut_id = ''c'', duration = 3, supervisions = [], tokenized_prompted_transcript = None,
           cut_num_tokens = None\<rparr>) =
   (None,
    Cut \<lparr>cut_id = ''c'', duration = 3, supervisions = [], tokenized_prompted_transcript = None,
          cut_num_tokens = Some 6\<rparr>,
    \<lparr>token_equivalent_duration = 1 / 2, batch_size = Some 2, batch_tokens = Some 100,
     quadratic_factor = None,
     internal = \<lparr>max_tokens = Some 100, max_examples = Some 2, quadratic_length = None,
                 current = 6, num_examples = 1\<rparr>\<rparr>) \<and>
   MultimodalSamplingConstraint_measure_length
     (MultimodalSamplingConstraint_init (1 / 2) (Some 2) (Some 100) None)
     (Cut \<lparr>cut_id = ''c'', duration = 3, supervisions = [], tokenized_prompted_transcript = None,
           cut_num_tokens = None\<rparr>) = Inr 6 \<and>
   \<not> is_cut (TextExample \<lparr>example_text = ''hello'', num_tokens = 7\<rparr>) \<and>
   MultimodalSamplingConstraint_add (MultimodalSamplingConstraint_init (1 / 2) (Some 2) (Some 100) None)
     (TextExample \<lparr>example_text = ''hello'', num_tokens = 7\<rparr>) =
   (None, TextExample \<lparr>example_text = ''hello'', num_tokens = 7\<rparr>,
    \<lparr>token_equivalent_duration = 1 / 2, batch_size = Some 2, batch_tokens = Some 100,
     quadratic_factor = None,
     internal = \<lparr>max_tokens = Some 100, max_examples = Some 2, quadratic_length = None,
                 current = 7, num_examples = 1\<rparr>\<rparr>)"
proof -
  let ?S = "MultimodalSamplingConstraint_init (1 / 2) (Some 2) (Some 100) None"
  let ?C = "\<lparr>cut_id = ''c'', duration = 3, supervisions = [], tokenized_prompted_transcript = None,
           cut_num_tokens = None\<rparr>"
  let ?T = "TextExample \<lparr>example_text = ''hello'', num_tokens = 7\<rparr>"
  have a: "MultimodalSamplingConstraint_add ?S (Cut ?C) =
     (None, Cut (?C\<lparr>cut_num_tokens := Some 6\<rparr>),
      ?S\<lparr>internal := (internal ?S)\<lparr>current := 6, num_examples := 1\<rparr>\<rparr>)"
    by (simp add: MultimodalSamplingConstraint_init_def internal_add_def TokenConstraint_add_def
        quadratic_correction_def truediv_def)
  have b: "MultimodalSamplingConstraint_add ?S ?T =
     (None, ?T, ?S\<lparr>internal := (internal ?S)\<lparr>current := 7, num_examples := 1\<rparr>\<rparr>)"
    by (simp add: MultimodalSamplingConstraint_init_def internal_add_def TokenConstraint_add_def
        quadratic_correction_def truediv_def)
  from multimodal_add_frame[OF a] multimodal_add_frame[OF b] a b show ?thesis
    by (simp add: MultimodalSamplingConstraint_init_def truediv_def)
qed

lemma quadratic_correction_penalised:
  "factor \<noteq> Some 0 \<Longrightarrow> quadratic_correction factor len = Inr (penalised factor len)"
  by (cases factor) (auto simp: quadratic_correction_def penalised_def truediv_def)

lemma measure_length_cong:
  "token_equivalent_duration a = token_equivalent_duration b \<Longrightarrow>
   MultimodalSamplingConstraint_measure_length a ex = MultimodalSamplingConstraint_measure_length b ex"
  by (cases ex) simp_all

lemma configured_init: "configured (MultimodalSamplingConstraint_init ted bs bt qf)"
  by (simp add: configured_def MultimodalSamplingConstraint_init_def)

lemma add_measured:
  assumes "MultimodalSamplingConstraint_measure_length self ex = Inr n"
    and "quadratic_length (internal self) \<noteq> Some 0"
  shows "\<exists>ex'. MultimodalSamplingConstraint_add self ex =
    (None, ex', self\<lparr>internal := (internal self)
       \<lparr>current := current (internal self) + penalised (quadratic_length (internal self)) n,
        num_examples := num_examples (internal self) + 1\<rparr>\<rparr>)"
  using assms
  by (cases ex)
     (auto simp: internal_add_def TokenConstraint_add_def quadratic_correction_penalised)

lemma add_all_measured:
  assumes "list_all2 (\<lambda>ex n. MultimodalSamplingConstraint_measure_length base ex = Inr n) exs ns"
    and "token_equivalent_duration self = token_equivalent_duration base"
    and "quadratic_length (internal self) \<noteq> Some 0"
  shows "\<exists>exs'. add_all self exs =
    (None, exs', self\<lparr>internal := (internal self)
       \<lparr>current := current (internal self) +
           sum_list (map (penalised (quadratic_length (internal self))) ns),
        num_examples := num_examples (internal self) + int (length exs)\<rparr>\<rparr>)"
  using assms
proof (induction exs ns arbitrary: self rule: list_all2_induct)
  case Nil
  then show ?case by simp
next
  case (Cons ex exs n ns)
  let ?q = "quadratic_length (internal self)"
  let ?s1 = "self\<lparr>internal := (internal self)
       \<lparr>current := current (internal self) + penalised ?q n,
        num_examples := num_examples (internal self) + 1\<rparr>\<rparr>"
  have "MultimodalSamplingConstraint_measure_length self ex = Inr n"
    using Cons.hyps(1) Cons.prems(1) measure_length_cong[of self base ex] by simp
  from add_measured[OF this Cons.prems(2)]
  obtain ex' where a: "MultimodalSamplingConstraint_add self ex = (None, ex', ?s1)" by blast
  have "\<exists>exs'. add_all ?s1 exs =
    (None, exs', ?s1\<lparr>internal := (internal ?s1)
       \<lparr>current := current (internal ?s1) +
           sum_list (map (penalised (quadratic_length (internal ?s1))) ns),
        num_examples := num_examples (internal ?s1) + int (length exs)\<rparr>\<rparr>)"
    using Cons.prems by (intro Cons.IH) simp_all
  then obtain exs' where b: "add_all ?s1 exs =
    (None, exs', ?s1\<lparr>internal := (internal ?s1)
       \<lparr>current := current (internal ?s1) +
           sum_list (map (penalised (quadratic_length (internal ?s1))) ns),
        num_examples := num_examples (internal ?s1) + int (length exs)\<rparr>\<rparr>)" by blast
  show ?case
    using a b by (simp add: add.assoc add.commute)
qed

text \<open>
  Claim C6, as amended. For a \<open>MultimodalSamplingConstraint\<close> whose configured bounds are
  not negative and whose quadratic factor, if any, is not zero: \<open>exceeded()\<close> is false
  immediately after \<open>reset()\<close>; every sequence of \<open>add\<close> calls on examples the constraint
  can measure returns; and after it \<open>exceeded()\<close> is true exactly when the sum of the
  measured lengths, each with the quadratic penalty when a factor is configured, is
  above the configured maximum length, or the number of examples is above the
  configured maximum example count. With no quadratic factor the sum is the cumulative
  measured length.
\<close>

theorem exceeded_after_reset_and_adds:
  assumes "configured self"
    and "quadratic_factor self \<noteq> Some 0"
    and "\<forall>m. batch_tokens self = Some m \<longrightarrow> 0 \<le> m"
    and "\<forall>k. batch_size self = Some k \<longrightarrow> 0 \<le> k"
    and "list_all2 (\<lambda>ex n. MultimodalSamplingConstraint_measure_length self ex = Inr n) exs ns"
  shows "\<not> MultimodalSamplingConstraint_exceeded (MultimodalSamplingConstraint_reset self) \<and>
    (\<exists>exs' self'.
       add_all (MultimodalSamplingConstraint_reset self) exs = (None, exs', self') \<and>
       (MultimodalSamplingConstraint_exceeded self' \<longleftrightarrow>
          (\<exists>m. batch_tokens self = Some m \<and>
                real_of_int m < sum_list (map (penalised (quadratic_factor self)) ns)) \<or>
          (\<exists>k. batch_size self = Some k \<and> k < int (length exs)))) \<and>
    (quadratic_factor self = None \<longrightarrow>
       sum_list (map (penalised (quadratic_factor self)) ns) = sum_list ns)"
proof -
  let ?r = "MultimodalSamplingConstraint_reset self"
  have cfg: "max_tokens (internal ?r) = batch_tokens self"
    "max_examples (internal ?r) = batch_size self"
    "quadratic_length (internal ?r) = quadratic_factor self"
    "current (internal ?r) = 0" "num_examples (internal ?r) = 0"
    "token_equivalent_duration ?r = token_equivalent_duration self"
    using assms(1)
    by (simp_all add: configured_def MultimodalSamplingConstraint_reset_def TokenConstraint_reset_def)
  have first: "\<not> MultimodalSamplingConstraint_exceeded ?r"
    using assms(3,4) cfg
    by (auto simp: MultimodalSamplingConstraint_exceeded_def TokenConstraint_exceeded_def
        split: option.splits)
  from add_all_measured[OF assms(5), of ?r] cfg assms(2)
  obtain exs' where a: "add_all ?r exs =
    (None, exs', ?r\<lparr>internal := (internal ?r)
       \<lparr>current := sum_list (map (penalised (quadratic_factor self)) ns),
        num_examples := int (length exs)\<rparr>\<rparr>)"
    by auto
  let ?s = "?r\<lparr>internal := (internal ?r)
       \<lparr>current := sum_list (map (penalised (quadratic_factor self)) ns),
        num_examples := int (length exs)\<rparr>\<rparr>"
  have "MultimodalSamplingConstraint_exceeded ?s \<longleftrightarrow>
          (\<exists>m. batch_tokens self = Some m \<and>
                real_of_int m < sum_list (map (penalised (quadratic_factor self)) ns)) \<or>
          (\<exists>k. batch_size self = Some k \<and> k < int (length exs))"
    using cfg
    by (auto simp: MultimodalSamplingConstraint_exceeded_def TokenConstraint_exceeded_def
        split: option.splits)
  moreover have "penalised None = (\<lambda>len. len)"
    by (rule ext) (simp add: penalised_def)
  then have "quadratic_factor self = None \<longrightarrow>
       sum_list (map (penalised (quadratic_factor self)) ns) = sum_list ns"
    by simp
  ultimately show ?thesis using a first by blast
qed

theorem exceeded_after_reset_and_adds_witness:
  "configured (MultimodalSamplingConstraint_init (1 / 2) (Some 2) (Some 10) None) \<and>
   list_all2
     (\<lambda>ex n. MultimodalSamplingConstraint_measure_length
        (MultimodalSamplingConstraint_init (1 / 2) (Some 2) (Some 10) None) ex = Inr n)
     [Cut \<lparr>cut_id = ''c'', duration = 3, supervisions = [], tokenized_prompted_transcript = None,
           cut_num_tokens = None\<rparr>,
      TextExample \<lparr>example_text = ''hello'', num_tokens = 7\<rparr>]
     [6, 7] \<and>
   \<not> MultimodalSamplingConstraint_exceeded
       (MultimodalSamplingConstraint_reset
          (MultimodalSamplingConstraint_init (1 / 2) (Some 2) (Some 10) None)) \<and>
   (\<exists>exs' self'.
      add_all (MultimodalSamplingConstraint_reset
          (MultimodalSamplingConstraint_init (1 / 2) (Some 2) (Some 10) None))
        [Cut \<lparr>cut_id = ''c'', duration = 3, supervisions = [], tokenized_prompted_transcript = None,
           cut_num_tokens = None\<rparr>,
         TextExample \<lparr>example_text = ''hello'', num_tokens = 7\<rparr>] = (None, exs', self') \<and>
      MultimodalSamplingConstraint_exceeded self')"
proof -
  let ?S = "MultimodalSamplingConstraint_init (1 / 2) (Some 2) (Some 10) None"
  let ?exs = "[Cut \<lparr>cut_id = ''c'', duration = 3, supervisions = [],
      tokenized_prompted_transcript = None, cut_num_tokens = None\<rparr>,
      TextExample \<lparr>example_text = ''hello'', num_tokens = 7\<rparr>]"
  have c: "configured ?S" by (rule configured_init)
  have q: "quadratic_factor ?S \<noteq> Some 0" "batch_tokens ?S = Some 10" "batch_size ?S = Some 2"
    by (simp_all add: MultimodalSamplingConstraint_init_def)
  have l: "list_all2 (\<lambda>ex n. MultimodalSamplingConstraint_measure_length ?S ex = Inr n) ?exs [6, 7]"
    by (simp add: MultimodalSamplingConstraint_init_def truediv_def)
  have p: "sum_list (map (penalised (quadratic_factor ?S)) [6, 7]) = 13"
    by (simp add: MultimodalSamplingConstraint_init_def penalised_def)
  from exceeded_after_reset_and_adds[OF c q(1) _ _ l] q(2,3) p c l show ?thesis
    by simp
qed

text \<open>
  Claim C6 as stated fails when a quadratic factor is configured: with the maximum
  length 10 and the factor 1, one text example of 3 tokens keeps the cumulative measured
  length (3) under the maximum, no maximum example count is configured, and yet
  \<open>exceeded()\<close> is true after the \<open>add\<close>, because the running total is 3 + 3 * 3 / 1 = 12.
\<close>

theorem exceeded_with_quadratic_penalty:
  "MultimodalSamplingConstraint_measure_length
     (MultimodalSamplingConstraint_init 1 None (Some 10) (Some 1))
     (TextExample \<lparr>example_text = ''abc'', num_tokens = 3\<rparr>) = Inr 3 \<and>
   (3::real) < real_of_int 10 \<and>
   add_all (MultimodalSamplingConstraint_reset
       (MultimodalSamplingConstraint_init 1 None (Some 10) (Some 1)))
       [TextExample \<lparr>example_text = ''abc'', num_tokens = 3\<rparr>] =
     (None, [TextExample \<lparr>example_text = ''abc'', num_tokens = 3\<rparr>],
      \<lparr>token_equivalent_duration = 1, batch_size = None, batch_tokens = Some 10,
       quadratic_factor = Some 1,
       internal = \<lparr>max_tokens = Some 10, max_examples = None, quadratic_length = Some 1,
                   current = 12, num_examples = 1\<rparr>\<rparr>) \<and>
   MultimodalSamplingConstraint_exceeded
      \<lparr>token_equivalent_duration = 1, batch_size = None, batch_tokens = Some 10,
       quadratic_factor = Some 1,
       internal = \<lparr>max_tokens = Some 10, max_examples = None, quadratic_length = Some 1,
                   current = 12, num_examples = 1\<rparr>\<rparr>"
  by (simp add: MultimodalSamplingConstraint_init_def MultimodalSamplingConstraint_reset_def
      TokenConstraint_reset_def internal_add_def TokenConstraint_add_def
      quadratic_correction_def truediv_def MultimodalSamplingConstraint_exceeded_def
      TokenConstraint_exceeded_def)

subsection \<open>The refinement loop on sorted tables of pairs\<close>

lemma pair_le_refl: "pair_le p p"
  by (simp add: pair_le_def)

lemma pair_le_trans: "pair_le p q \<Longrightarrow> pair_le q r \<Longrightarrow> pair_le p r"
  by (auto simp: pair_le_def)

lemma sorted_pairs_nth_mono:
  "sorted_wrt pair_le ps \<Longrightarrow> i \<le> j \<Longrightarrow> j < length ps \<Longrightarrow> pair_le (ps ! i) (ps ! j)"
  by (cases "i = j") (auto simp: pair_le_refl sorted_wrt_nth_less)

lemma py_lt_pair_entry: "py_lt (pair_entry x) (pair_entry p) = Inr (\<not> pair_le p x)"
  by (auto simp: pair_entry_def pair_le_def)

lemma subscript_pair_entry:
  "subscript (pair_entry p) 0 = Inr (fst p)" "subscript (pair_entry p) 1 = Inr (snd p)"
  "subscript (pair_entry p) (Suc 0) = Inr (snd p)"
  by (simp_all add: pair_entry_def getitem_def)

lemma unpack2_pair_entry: "unpack2 (pair_entry p) = Inr (fst p, snd p)"
  by (simp add: pair_entry_def)

lemma bisect_right_loop_pairs:
  assumes "hi \<le> length ps" and "lo \<le> hi"
  shows "\<exists>r. bisect_right_loop (map pair_entry ps) (pair_entry x) lo hi = Inr r \<and>
           lo \<le> r \<and> r \<le> hi \<and>
           (lo < r \<longrightarrow> pair_le (ps ! (r - 1)) x) \<and>
           (r < hi \<longrightarrow> \<not> pair_le (ps ! r) x)"
  using assms
proof (induction "hi - lo" arbitrary: lo hi rule: less_induct)
  case less
  show ?case
  proof (cases "lo < hi")
    case False
    with less.prems show ?thesis
      by (subst bisect_right_loop.simps) simp
  next
    case True
    let ?mid = "(lo + hi) div 2"
    have mid: "lo \<le> ?mid" "?mid < hi" "?mid < length ps" using True less.prems by auto
    show ?thesis
    proof (cases "pair_le (ps ! ?mid) x")
      case False
      have "\<exists>r. bisect_right_loop (map pair_entry ps) (pair_entry x) lo ?mid = Inr r \<and>
           lo \<le> r \<and> r \<le> ?mid \<and>
           (lo < r \<longrightarrow> pair_le (ps ! (r - 1)) x) \<and>
           (r < ?mid \<longrightarrow> \<not> pair_le (ps ! r) x)"
        using mid True less.prems by (intro less.hyps) auto
      then obtain r where r: "bisect_right_loop (map pair_entry ps) (pair_entry x) lo ?mid = Inr r"
        "lo \<le> r" "r \<le> ?mid" "lo < r \<longrightarrow> pair_le (ps ! (r - 1)) x"
        "r < ?mid \<longrightarrow> \<not> pair_le (ps ! r) x" by blast
      have "bisect_right_loop (map pair_entry ps) (pair_entry x) lo hi = Inr r"
        using True mid False r(1)
        by (subst bisect_right_loop.simps) (simp add: getitem_def py_lt_pair_entry)
      moreover have "r < hi \<longrightarrow> \<not> pair_le (ps ! r) x"
        using r(3,5) False by (cases "r = ?mid") auto
      ultimately show ?thesis using r mid by auto
    next
      case le: True
      have "\<exists>r. bisect_right_loop (map pair_entry ps) (pair_entry x) (?mid + 1) hi = Inr r \<and>
           ?mid + 1 \<le> r \<and> r \<le> hi \<and>
           (?mid + 1 < r \<longrightarrow> pair_le (ps ! (r - 1)) x) \<and>
           (r < hi \<longrightarrow> \<not> pair_le (ps ! r) x)"
        using mid True less.prems by (intro less.hyps) auto
      then obtain r where r: "bisect_right_loop (map pair_entry ps) (pair_entry x) (?mid + 1) hi = Inr r"
        "?mid + 1 \<le> r" "r \<le> hi" "?mid + 1 < r \<longrightarrow> pair_le (ps ! (r - 1)) x"
        "r < hi \<longrightarrow> \<not> pair_le (ps ! r) x" by blast
      have "bisect_right_loop (map pair_entry ps) (pair_entry x) lo hi = Inr r"
        using True mid le r(1)
        by (subst bisect_right_loop.simps) (simp add: getitem_def py_lt_pair_entry)
      moreover have "pair_le (ps ! (r - 1)) x"
        using r(2,4) le by (cases "r = ?mid + 1") auto
      ultimately show ?thesis using r mid by auto
    qed
  qed
qed

lemma bisect_right_pairs:
  assumes "sorted_wrt pair_le ps"
    and "bisect_right (map pair_entry ps) (pair_entry x) = Inr i"
  shows "i \<le> length ps" and "\<forall>k<i. pair_le (ps ! k) x"
    and "\<forall>k. i \<le> k \<and> k < length ps \<longrightarrow> \<not> pair_le (ps ! k) x"
proof -
  from bisect_right_loop_pairs[of "length ps" ps 0 x] assms(2)
  have r: "i \<le> length ps" "0 < i \<longrightarrow> pair_le (ps ! (i - 1)) x"
    "i < length ps \<longrightarrow> \<not> pair_le (ps ! i) x"
    by (auto simp: bisect_right_def)
  show "i \<le> length ps" by (rule r(1))
  show "\<forall>k<i. pair_le (ps ! k) x"
  proof (intro allI impI)
    fix k assume k: "k < i"
    then have "pair_le (ps ! k) (ps ! (i - 1))"
      using r(1) by (intro sorted_pairs_nth_mono[OF assms(1)]) auto
    moreover have "pair_le (ps ! (i - 1)) x" using r(2) k by auto
    ultimately show "pair_le (ps ! k) x" by (rule pair_le_trans)
  qed
  show "\<forall>k. i \<le> k \<and> k < length ps \<longrightarrow> \<not> pair_le (ps ! k) x"
  proof (intro allI impI notI)
    fix k assume k: "i \<le> k \<and> k < length ps" and le: "pair_le (ps ! k) x"
    have "pair_le (ps ! i) (ps ! k)"
      using k by (intro sorted_pairs_nth_mono[OF assms(1)]) auto
    then have "pair_le (ps ! i) x" using le by (rule pair_le_trans)
    with r(3) k show False by auto
  qed
qed

lemma refine_bucket_idx_finds:
  assumes "sorted_wrt pair_le ps"
    and "k \<le> j" and "j < length ps"
    and "fst (ps ! j) = fst (ps ! k)" and "t \<le> snd (ps ! j)"
  shows "\<exists>r. refine_bucket_idx (map pair_entry ps) (Tuple [d, t]) k (fst (ps ! k)) (snd (ps ! k)) = Inr r \<and>
           k \<le> r \<and> r \<le> j \<and> fst (ps ! r) = fst (ps ! k) \<and> t \<le> snd (ps ! r) \<and>
           (\<forall>m. k \<le> m \<and> m < r \<longrightarrow> snd (ps ! m) < t)"
  using assms(2-)
proof (induction "j - k" arbitrary: k rule: less_induct)
  case less
  note sorted = assms(1)
  show ?case
  proof (cases "t \<le> snd (ps ! k)")
    case True
    have stop: "refine_bucket_idx (map pair_entry ps) (Tuple [d, t]) k (fst (ps ! k)) (snd (ps ! k)) = Inr k"
    proof (cases "k + 1 < length ps \<and> fst (ps ! (k + 1)) = fst (ps ! k)")
      case False
      then show ?thesis
        by (subst refine_bucket_idx.simps) (auto simp: subscript_pair_entry)
    next
      case nxt: True
      have "pair_le (ps ! k) (ps ! (k + 1))"
        using nxt by (intro sorted_pairs_nth_mono[OF sorted]) auto
      with nxt have "snd (ps ! k) \<le> snd (ps ! (k + 1))" by (auto simp: pair_le_def)
      with True nxt show ?thesis
        by (subst refine_bucket_idx.simps) (auto simp: subscript_pair_entry getitem_def)
    qed
    with True less.prems show ?thesis by auto
  next
    case False
    then have lt: "snd (ps ! k) < t" by simp
    with less.prems have kj: "k < j" by (cases "k = j") auto
    then have k1: "k + 1 \<le> j" "k + 1 < length ps" using less.prems by auto
    have "pair_le (ps ! k) (ps ! (k + 1))"
      using k1 by (intro sorted_pairs_nth_mono[OF sorted]) auto
    moreover have "pair_le (ps ! (k + 1)) (ps ! j)"
      using k1 less.prems by (intro sorted_pairs_nth_mono[OF sorted]) auto
    ultimately have same: "fst (ps ! (k + 1)) = fst (ps ! k)"
      using less.prems(3) by (auto simp: pair_le_def)
    have "\<exists>r. refine_bucket_idx (map pair_entry ps) (Tuple [d, t]) (k + 1)
              (fst (ps ! (k + 1))) (snd (ps ! (k + 1))) = Inr r \<and>
           k + 1 \<le> r \<and> r \<le> j \<and> fst (ps ! r) = fst (ps ! (k + 1)) \<and> t \<le> snd (ps ! r) \<and>
           (\<forall>m. k + 1 \<le> m \<and> m < r \<longrightarrow> snd (ps ! m) < t)"
      using k1 kj less.prems same by (intro less.hyps) auto
    then obtain r where r:
      "refine_bucket_idx (map pair_entry ps) (Tuple [d, t]) (k + 1)
              (fst (ps ! (k + 1))) (snd (ps ! (k + 1))) = Inr r"
      "k + 1 \<le> r" "r \<le> j" "fst (ps ! r) = fst (ps ! (k + 1))" "t \<le> snd (ps ! r)"
      "\<forall>m. k + 1 \<le> m \<and> m < r \<longrightarrow> snd (ps ! m) < t" by blast
    have step: "refine_bucket_idx (map pair_entry ps) (Tuple [d, t]) k (fst (ps ! k)) (snd (ps ! k)) = Inr r"
      using k1 same lt r(1)
      by (subst refine_bucket_idx.simps)
         (auto simp: subscript_pair_entry unpack2_pair_entry getitem_def)
    have "\<forall>m. k \<le> m \<and> m < r \<longrightarrow> snd (ps ! m) < t"
    proof (intro allI impI)
      fix m assume m: "k \<le> m \<and> m < r"
      show "snd (ps ! m) < t"
      proof (cases "m = k")
        case True with lt show ?thesis by simp
      next
        case False with m r(6) show ?thesis by auto
      qed
    qed
    with step r same show ?thesis by auto
  qed
qed


lemma refine_bucket_idx_advances:
  assumes "k < length ps"
  shows "\<exists>r. refine_bucket_idx (map pair_entry ps) (Tuple [d, t]) k (fst (ps ! k)) (snd (ps ! k)) = Inr r \<and>
           k \<le> r \<and> r < length ps \<and> (\<forall>m. k \<le> m \<and> m < r \<longrightarrow> advances ps t m) \<and>
           \<not> advances ps t r"
  using assms
proof (induction "length ps - k" arbitrary: k rule: less_induct)
  case less
  show ?case
  proof (cases "advances ps t k")
    case False
    then have "refine_bucket_idx (map pair_entry ps) (Tuple [d, t]) k (fst (ps ! k)) (snd (ps ! k)) = Inr k"
      by (subst refine_bucket_idx.simps)
         (auto simp: advances_def subscript_pair_entry getitem_def)
    with False less.prems show ?thesis by auto
  next
    case True
    then have k1: "k + 1 < length ps" by (simp add: advances_def)
    have "\<exists>r. refine_bucket_idx (map pair_entry ps) (Tuple [d, t]) (k + 1)
              (fst (ps ! (k + 1))) (snd (ps ! (k + 1))) = Inr r \<and>
           k + 1 \<le> r \<and> r < length ps \<and> (\<forall>m. k + 1 \<le> m \<and> m < r \<longrightarrow> advances ps t m) \<and>
           \<not> advances ps t r"
      using k1 by (intro less.hyps) auto
    then obtain r where r:
      "refine_bucket_idx (map pair_entry ps) (Tuple [d, t]) (k + 1)
              (fst (ps ! (k + 1))) (snd (ps ! (k + 1))) = Inr r"
      "k + 1 \<le> r" "r < length ps" "\<forall>m. k + 1 \<le> m \<and> m < r \<longrightarrow> advances ps t m"
      "\<not> advances ps t r" by blast
    have step: "refine_bucket_idx (map pair_entry ps) (Tuple [d, t]) k (fst (ps ! k)) (snd (ps ! k)) = Inr r"
      using True r(1)
      by (subst refine_bucket_idx.simps)
         (auto simp: advances_def subscript_pair_entry unpack2_pair_entry getitem_def)
    have "\<forall>m. k \<le> m \<and> m < r \<longrightarrow> advances ps t m"
    proof (intro allI impI)
      fix m assume m: "k \<le> m \<and> m < r"
      show "advances ps t m"
      proof (cases "m = k")
        case True with \<open>advances ps t k\<close> show ?thesis by simp
      next
        case False with m r(4) show ?thesis by auto
      qed
    qed
    with step r show ?thesis by auto
  qed
qed

text \<open>
  Claim C1, as amended. With 2D bucketing enabled, on a table of pairs sorted
  lexicographically, \<open>select_bucket\<close> locates a candidate bucket \<open>i\<close> by binary search on the
  boundary tuples and then advances to the next bucket while a next bucket exists, it
  shares the first-dimension boundary of the current bucket, and either the example's
  second dimension is above the current bucket's second-dimension boundary and at most
  the next bucket's, or it is above the next bucket's (the guard \<open>advances\<close>). For every
  such table and every example length for which some bucket sharing the candidate's
  first-dimension boundary contains the example (its first dimension is below the
  bucket's first boundary, its second dimension at most the second boundary), the
  returned index is the smallest such bucket, by index and by both dimensions, among the
  buckets sharing that first-dimension boundary. The length is the one given or, when
  none is given, the measured one.
\<close>

theorem select_bucket_smallest_containing:
  assumes "sorted_wrt pair_le ps"
    and "max_seq_len_buckets self = map pair_entry ps"
    and "example_len = Some (pair_entry x) \<or>
         (example_len = None \<and>
          FixedBucketBatchSizeConstraint2D_measure_length self ex = Inr (pair_entry x))"
    and "bisect_right (map pair_entry ps) (pair_entry x) = Inr i" and "i < length ps"
    and "j < length ps" and "fst (ps ! j) = fst (ps ! i)" and "contains (ps ! j) x"
  shows "\<exists>r. select_bucket self (map pair_entry ps) ex example_len = Inr r \<and>
      i \<le> r \<and> r < length ps \<and>
      (\<forall>m. i \<le> m \<and> m < r \<longrightarrow> advances ps (snd x) m) \<and> \<not> advances ps (snd x) r \<and>
      fst (ps ! r) = fst (ps ! i) \<and> contains (ps ! r) x \<and>
      (\<forall>k<length ps. fst (ps ! k) = fst (ps ! i) \<and> contains (ps ! k) x \<longrightarrow>
         r \<le> k \<and> pair_le (ps ! r) (ps ! k))"
proof -
  note cand = bisect_right_pairs[OF assms(1,4)]
  have x: "pair_entry x = Tuple [fst x, snd x]" by (simp add: pair_entry_def)
  have below: "i \<le> k" if "k < length ps" "contains (ps ! k) x" for k
  proof (rule ccontr)
    assume "\<not> i \<le> k"
    then have "pair_le (ps ! k) x" using cand(2) by auto
    with that(2) show False by (auto simp: pair_le_def contains_def)
  qed
  have ij: "i \<le> j" using below assms(6,8) by blast
  have t: "snd x \<le> snd (ps ! j)" using assms(8) by (simp add: contains_def)
  from refine_bucket_idx_finds[OF assms(1) ij assms(6,7) t, of "fst x"]
  obtain r where r:
    "refine_bucket_idx (map pair_entry ps) (pair_entry x) i (fst (ps ! i)) (snd (ps ! i)) = Inr r"
    "i \<le> r" "r \<le> j" "fst (ps ! r) = fst (ps ! i)" "snd x \<le> snd (ps ! r)"
    "\<forall>m. i \<le> m \<and> m < r \<longrightarrow> snd (ps ! m) < snd x"
    unfolding x by blast
  from refine_bucket_idx_advances[OF assms(5), of "fst x" "snd x"] r(1)
  have adv: "(\<forall>m. i \<le> m \<and> m < r \<longrightarrow> advances ps (snd x) m)" "\<not> advances ps (snd x) r"
    unfolding x by auto
  have en: "bucketing_2d_enabled self = Inr True"
    using assms(2,5) by (cases ps) (auto simp: bucketing_2d_enabled_def getitem_def pair_entry_def)
  have sel: "select_bucket self (map pair_entry ps) ex example_len = Inr r"
    using assms(2,3,4,5) en r(1)
    by (auto simp: select_bucket_def select_bucket_body_def getitem_def unpack2_pair_entry
        case_prod_beta)
  have cont: "contains (ps ! r) x"
    using r(4,5) assms(7,8) by (simp add: contains_def)
  have least: "\<forall>k<length ps. fst (ps ! k) = fst (ps ! i) \<and> contains (ps ! k) x \<longrightarrow>
         r \<le> k \<and> pair_le (ps ! r) (ps ! k)"
  proof (intro allI impI)
    fix k assume k: "k < length ps" and c: "fst (ps ! k) = fst (ps ! i) \<and> contains (ps ! k) x"
    have ik: "i \<le> k" using below k c by blast
    have rk: "r \<le> k"
    proof (rule ccontr)
      assume "\<not> r \<le> k"
      with ik r(6) have "snd (ps ! k) < snd x" by auto
      with c show False by (simp add: contains_def)
    qed
    moreover have "pair_le (ps ! r) (ps ! k)"
      using rk k by (intro sorted_pairs_nth_mono[OF assms(1)]) auto
    ultimately show "r \<le> k \<and> pair_le (ps ! r) (ps ! k)" by simp
  qed
  from sel r(2,3) assms(6) adv r(4) cont least show ?thesis by auto
qed

theorem select_bucket_smallest_containing_witness:
  "sorted_wrt pair_le [(1, 1), (1, 2), (2, 2), (2, 4)] \<and>
   bisect_right (map pair_entry [(1, 1), (1, 2), (2, 2), (2, 4)]) (pair_entry (3 / 2, 3)) = Inr 2 \<and>
   contains ([(1, 1), (1, 2), (2, 2), (2, 4)] ! 3) (3 / 2, 3) \<and>
   select_bucket \<lparr>max_seq_len_buckets = map pair_entry [(1, 1), (1, 2), (2, 2), (2, 4)],
                  batch_sizes = [8, 4, 2, 1]\<rparr>
     (map pair_entry [(1, 1), (1, 2), (2, 2), (2, 4)]) none_example (Some (pair_entry (3 / 2, 3)))
   = Inr 3"
proof -
  let ?ps = "[(1, 1), (1, 2), (2, 2), (2, 4)] :: (real \<times> real) list"
  let ?self = "\<lparr>max_seq_len_buckets = map pair_entry ?ps, batch_sizes = [8, 4, 2, 1]\<rparr>"
  have s: "sorted_wrt pair_le ?ps" by (simp add: pair_le_def)
  have b: "bisect_right (map pair_entry ?ps) (pair_entry (3 / 2, 3)) = Inr 2"
    by (simp add: bisect_right_def bisect_right_loop.simps getitem_def pair_entry_def)
  have c: "contains (?ps ! 3) (3 / 2, 3)" by (simp add: contains_def)
  have f: "fst (?ps ! 3) = fst (?ps ! 2)" by simp
  have sel: "select_bucket ?self (map pair_entry ?ps) none_example (Some (pair_entry (3 / 2, 3))) = Inr 3"
    by (simp add: select_bucket_def select_bucket_body_def bucketing_2d_enabled_def getitem_def
        bisect_right_def bisect_right_loop.simps refine_bucket_idx.simps pair_entry_def)
  from select_bucket_smallest_containing[of ?ps ?self "Some (pair_entry (3 / 2, 3))" "(3 / 2, 3)" none_example 2 3, OF s _ _ b _ _ f c]
    s b c sel
  show ?thesis by simp
qed

text \<open>
  Claim C1 as stated fails: the code advances also when the example's second dimension
  equals the next bucket's second-dimension boundary, which is not strictly between the
  two boundaries. For the table \<open>[(2,2),(2,4)]\<close> and the length \<open>(1.5, 4)\<close> the code returns
  index 1, and the loop as the claim words it stays at index 0.
\<close>

theorem select_bucket_differs_from_strictly_between:
  "select_bucket \<lparr>max_seq_len_buckets = [Tuple [2, 2], Tuple [2, 4]], batch_sizes = [8, 4]\<rparr>
     [Tuple [2, 2], Tuple [2, 4]] none_example (Some (Tuple [3 / 2, 4])) = Inr 1 \<and>
   select_bucket_as_specified [(2, 2), (2, 4)] (3 / 2, 4) = Inr 0"
  by (simp add: select_bucket_def select_bucket_body_def bucketing_2d_enabled_def getitem_def
      bisect_right_def bisect_right_loop.simps refine_bucket_idx.simps
      select_bucket_as_specified_def advance_as_specified.simps pair_entry_def)

end
